theory Spec2Isabelle
  imports Main
begin

section \<open>JSON values and dictionaries\<close>

text \<open>
  The scripts read and write JSON files and build Python dictionaries. A JSON value is
  null, a string, an array or an object; numbers and booleans occur in none of the
  fields the scripts inspect and are left out. A dictionary is an association list in
  insertion order, as a Python \<open>dict\<close> keeps it. On these values Python's \<open>==\<close> is
  structural equality (two objects that list the same entries in a different order are
  the one case where \<open>==\<close> is coarser; the keys compared below are strings or null).
\<close>

datatype json = Null | Str string | Arr "json list" | Obj "(string \<times> json) list"

type_synonym dict = "(string \<times> json) list"

datatype error = KeyError string | TypeError | AttributeError | IndexError

text \<open>\<open>d.get(k)\<close>: the value stored under \<open>k\<close>, Python's \<open>None\<close> when the key is missing.\<close>

definition py_get :: "dict \<Rightarrow> string \<Rightarrow> json" where
  "py_get d k = (case map_of d k of None \<Rightarrow> Null | Some v \<Rightarrow> v)"

text \<open>\<open>d[k]\<close>: raises \<open>KeyError\<close> when the key is missing.\<close>

definition subscript :: "dict \<Rightarrow> string \<Rightarrow> error + json" where
  "subscript d k = (case map_of d k of None \<Rightarrow> Inl (KeyError k) | Some v \<Rightarrow> Inr v)"

text \<open>\<open>d[k] = v\<close>: overwrites in place, or appends a new key at the end.\<close>

fun setitem :: "string \<Rightarrow> json \<Rightarrow> dict \<Rightarrow> dict" where
  "setitem k v [] = [(k, v)]"
| "setitem k v ((k', v') # d) = (if k' = k then (k, v) # d else (k', v') # setitem k v d)"

text \<open>Arrays and objects are unhashable: putting one into a \<open>set\<close> raises \<open>TypeError\<close>.\<close>

fun hashable :: "json \<Rightarrow> bool" where
  "hashable Null = True"
| "hashable (Str s) = True"
| "hashable (Arr xs) = False"
| "hashable (Obj kvs) = False"


section \<open>Text\<close>

text \<open>
  A text is a \<open>string\<close>: a list of characters, each a code point below 256. On these
  code points Python's tables are the following: \<open>str.isspace\<close> and the class \<open>\s\<close> hold
  of 9 to 13, 28 to 31, 32, 133 and 160; \<open>.\<close> excludes only the line feed; \<open>\d\<close> is
  \<open>0\<close> to \<open>9\<close>; \<open>str.splitlines\<close> breaks at 10 to 13, 28 to 30 and 133, a carriage
  return followed by a line feed being one break; \<open>str.lower\<close> and the case folding of
  \<open>re.IGNORECASE\<close> add 32 to \<open>A\<close> to \<open>Z\<close> and to 192 to 222 except 215.
\<close>

definition LF :: char where
  "LF = CHR 0x0A"

definition CR :: char where
  "CR = CHR 0x0D"

definition isspace :: "char \<Rightarrow> bool" where
  "isspace c = (c \<in> set [CHR 0x09, CHR 0x0A, CHR 0x0B, CHR 0x0C, CHR 0x0D, CHR 0x1C, CHR 0x1D,
                           CHR 0x1E, CHR 0x1F, CHR 0x20, CHR 0x85, CHR 0xA0])"

definition is_linebreak :: "char \<Rightarrow> bool" where
  "is_linebreak c = (c \<in> set [CHR 0x0A, CHR 0x0B, CHR 0x0C, CHR 0x0D, CHR 0x1C, CHR 0x1D,
                                CHR 0x1E, CHR 0x85])"

definition isdigit :: "char \<Rightarrow> bool" where
  "isdigit c = (c \<in> set ''0123456789'')"

definition ascii_upper :: "char \<Rightarrow> bool" where
  "ascii_upper c = (c \<in> set ''ABCDEFGHIJKLMNOPQRSTUVWXYZ'')"

definition ascii_lower :: "char \<Rightarrow> bool" where
  "ascii_lower c = (c \<in> set ''abcdefghijklmnopqrstuvwxyz'')"

definition lower_char :: "char \<Rightarrow> char" where
  "lower_char c =
     (let n = (of_char c :: nat) in
      if (65 \<le> n \<and> n \<le> 90) \<or> (192 \<le> n \<and> n \<le> 222 \<and> n \<noteq> 215)
      then char_of (n + 32) else c)"

text \<open>\<open>s.lower()\<close>.\<close>

definition lower :: "string \<Rightarrow> string" where
  "lower s = map lower_char s"

text \<open>
  \<open>s.upper()\<close>. The scripts call it on the identifier the pattern \<open>id_pattern\<close> has
  matched: one of the letters \<open>A\<close> to \<open>Z\<close>, \<open>a\<close> to \<open>z\<close> and three digits. (The upper case
  of 181, 223 and 255 is no single code point below 256; they are left as they are.)
\<close>

definition upper_char :: "char \<Rightarrow> char" where
  "upper_char c =
     (let n = (of_char c :: nat) in
      if (97 \<le> n \<and> n \<le> 122) \<or> (224 \<le> n \<and> n \<le> 254 \<and> n \<noteq> 247)
      then char_of (n - 32) else c)"

definition upper :: "string \<Rightarrow> string" where
  "upper s = map upper_char s"

text \<open>\<open>s.strip()\<close> and \<open>s.strip(chars)\<close>.\<close>

definition strip :: "string \<Rightarrow> string" where
  "strip s = rev (dropWhile isspace (rev (dropWhile isspace s)))"

definition strip_chars :: "string \<Rightarrow> string \<Rightarrow> string" where
  "strip_chars chars s =
     rev (dropWhile (\<lambda>c. c \<in> set chars) (rev (dropWhile (\<lambda>c. c \<in> set chars) s)))"

text \<open>\<open>s.splitlines()\<close>, with the line read so far as first argument.\<close>

fun splitlines_from :: "string \<Rightarrow> string \<Rightarrow> string list" where
  "splitlines_from line [] = (if line = [] then [] else [line])"
| "splitlines_from line [c] =
     (if is_linebreak c then [line] else [line @ [c]])"
| "splitlines_from line (c # d # cs) =
     (if c = CR \<and> d = LF then line # splitlines_from [] cs
      else if is_linebreak c then line # splitlines_from [] (d # cs)
      else splitlines_from (line @ [c]) (d # cs))"

definition splitlines :: "string \<Rightarrow> string list" where
  "splitlines s = splitlines_from [] s"

text \<open>
  \<open>s.split("\n")\<close> and \<open>re.split(r"[|,]", s)\<close>: the pieces between the separators, empty
  pieces included; the result is never empty.
\<close>

fun split_from :: "(char \<Rightarrow> bool) \<Rightarrow> string \<Rightarrow> string \<Rightarrow> string list" where
  "split_from sep piece [] = [piece]"
| "split_from sep piece (c # cs) =
     (if sep c then piece # split_from sep [] cs else split_from sep (piece @ [c]) cs)"

definition split :: "(char \<Rightarrow> bool) \<Rightarrow> string \<Rightarrow> string list" where
  "split sep s = split_from sep [] s"

text \<open>\<open>sub in s\<close> for strings.\<close>

definition starts_with :: "string \<Rightarrow> string \<Rightarrow> bool" where
  "starts_with p s = (take (length p) s = p)"

fun contains :: "string \<Rightarrow> string \<Rightarrow> bool" where
  "contains sub [] = (sub = [])"
| "contains sub (c # cs) = (starts_with sub (c # cs) \<or> contains sub cs)"


section \<open>Regular expressions\<close>

text \<open>
  Every pattern of the scripts is a sequence of items with one capturing group, an item
  being one character of a class, or a repetition of a class that is greedy (\<open>*\<close>, \<open>+\<close>)
  or lazy (\<open>+?\<close>). \<open>re\<close> matches by backtracking: a greedy repetition first takes one
  more character and gives it back when the rest of the pattern fails; a lazy one first
  tries the rest of the pattern and takes one more character when that fails.
\<close>

datatype item = One "char \<Rightarrow> bool" | Greedy nat "char \<Rightarrow> bool" | Lazy nat "char \<Rightarrow> bool"

text \<open>
  \<open>greedy n p k piece s\<close>: at least \<open>n\<close> more characters of class \<open>p\<close> from \<open>s\<close>, then the
  rest of the pattern \<open>k\<close>; \<open>piece\<close> is what the repetition has taken so far. The result
  is the piece taken and the result of \<open>k\<close>.
\<close>

fun greedy :: "nat \<Rightarrow> (char \<Rightarrow> bool) \<Rightarrow> (string \<Rightarrow> 'a option) \<Rightarrow> string \<Rightarrow> string
    \<Rightarrow> (string \<times> 'a) option" where
  "greedy n p k piece [] = (if n = 0 then map_option (Pair piece) (k []) else None)"
| "greedy n p k piece (c # cs) =
     (case (if p c then greedy (n - 1) p k (piece @ [c]) cs else None) of
        Some r \<Rightarrow> Some r
      | None \<Rightarrow> if n = 0 then map_option (Pair piece) (k (c # cs)) else None)"

fun lazy :: "nat \<Rightarrow> (char \<Rightarrow> bool) \<Rightarrow> (string \<Rightarrow> 'a option) \<Rightarrow> string \<Rightarrow> string
    \<Rightarrow> (string \<times> 'a) option" where
  "lazy n p k piece [] = (if n = 0 then map_option (Pair piece) (k []) else None)"
| "lazy n p k piece (c # cs) =
     (case (if n = 0 then map_option (Pair piece) (k (c # cs)) else None) of
        Some r \<Rightarrow> Some r
      | None \<Rightarrow> if p c then lazy (n - 1) p k (piece @ [c]) cs else None)"

text \<open>A match of the items at the start of \<open>s\<close>: the piece of \<open>s\<close> each item has taken.\<close>

primrec match_items :: "item list \<Rightarrow> string \<Rightarrow> string list option" where
  "match_items [] s = Some []"
| "match_items (i # is) s =
     (case i of
        One p \<Rightarrow>
          (case s of
             [] \<Rightarrow> None
           | c # cs \<Rightarrow> if p c then map_option ((#) [c]) (match_items is cs) else None)
      | Greedy n p \<Rightarrow>
          map_option (\<lambda>(piece, pieces). piece # pieces) (greedy n p (match_items is) [] s)
      | Lazy n p \<Rightarrow>
          map_option (\<lambda>(piece, pieces). piece # pieces) (lazy n p (match_items is) [] s))"

text \<open>A pattern: the items before the group, of the group, and after it.\<close>

datatype regex = Regex (before: "item list") (inside: "item list") (after: "item list")

text \<open>\<open>group(1)\<close> of a match at the start of \<open>s\<close>.\<close>

definition match_at :: "regex \<Rightarrow> string \<Rightarrow> string option" where
  "match_at r s =
     map_option (\<lambda>pieces. concat (take (length (inside r)) (drop (length (before r)) pieces)))
       (match_items (before r @ inside r @ after r) s)"

text \<open>\<open>re.search(r, s)\<close>: \<open>group(1)\<close> of the leftmost match, \<open>None\<close> when there is none.\<close>

fun re_search :: "regex \<Rightarrow> string \<Rightarrow> string option" where
  "re_search r [] = match_at r []"
| "re_search r (c # cs) =
     (case match_at r (c # cs) of Some g \<Rightarrow> Some g | None \<Rightarrow> re_search r cs)"

text \<open>Literal text, as it is and under \<open>re.IGNORECASE\<close>; the classes \<open>.\<close> with and without \<open>re.S\<close>.\<close>

definition lit :: "bool \<Rightarrow> string \<Rightarrow> item list" where
  "lit ignorecase s =
     map (\<lambda>l. One (\<lambda>c. if ignorecase then lower_char c = lower_char l else c = l)) s"

definition dot :: "char \<Rightarrow> bool" where
  "dot c = (c \<noteq> LF)"

definition dot_all :: "char \<Rightarrow> bool" where
  "dot_all c = True"

text \<open>\<open>r"<label>\s*(.+)"\<close>, and with \<open>re.DOTALL\<close>.\<close>

definition label_line :: "bool \<Rightarrow> string \<Rightarrow> regex" where
  "label_line ignorecase label = Regex (lit ignorecase label @ [Greedy 0 isspace]) [Greedy 1 dot] []"

definition label_rest :: "bool \<Rightarrow> string \<Rightarrow> regex" where
  "label_rest ignorecase label =
     Regex (lit ignorecase label @ [Greedy 0 isspace]) [Greedy 1 dot_all] []"

text \<open>\<open>r"<label>\s*([^\n\r]+)"\<close>.\<close>

definition label_no_break :: "string \<Rightarrow> regex" where
  "label_no_break label =
     Regex (lit False label @ [Greedy 0 isspace]) [Greedy 1 (\<lambda>c. c \<noteq> LF \<and> c \<noteq> CR)] []"

text \<open>\<open>r"<start>(.+?)<stop>"\<close> with \<open>re.S\<close>.\<close>

definition block :: "string \<Rightarrow> string \<Rightarrow> regex" where
  "block start stop = Regex (lit False start) [Lazy 1 dot_all] (lit False stop)"


section \<open>Store merger\<close>

subsection \<open>Recruitment posts (\<open>recruitments.py\<close>, body of the main loop)\<close>

text \<open>
  \<open>any(j.get("id") == job_json["id"] for j in data)\<close>: the generator evaluates
  \<open>job_json["id"]\<close> once per element and stops at the first hit.
\<close>

fun any_same_id :: "dict list \<Rightarrow> dict \<Rightarrow> error + bool" where
  "any_same_id [] job_json = Inr False"
| "any_same_id (j # data) job_json =
     (case subscript job_json ''id'' of
        Inl e \<Rightarrow> Inl e
      | Inr jid \<Rightarrow> if py_get j ''id'' = jid then Inr True else any_same_id data job_json)"

text \<open>What the loop prints for one post.\<close>

datatype report = Added_job json | Skipped_duplicate_job_ID json

text \<open>
  Lines 135 to 139: the new list \<open>data\<close> and the line printed, or the exception that ends
  the run before anything is written back.
\<close>

definition merge_job :: "dict list \<Rightarrow> dict \<Rightarrow> error + dict list \<times> report" where
  "merge_job data job_json =
     (case any_same_id data job_json of
        Inl e \<Rightarrow> Inl e
      | Inr dup \<Rightarrow>
          if \<not> dup then
            (case subscript job_json ''title'' of
               Inl e \<Rightarrow> Inl e
             | Inr t \<Rightarrow> Inr (job_json # data, Added_job t))
          else
            (case subscript job_json ''id'' of
               Inl e \<Rightarrow> Inl e
             | Inr jid \<Rightarrow> Inr (data, Skipped_duplicate_job_ID jid)))"

subsection \<open>Events (\<open>events.py\<close>, \<open>insert_event\<close>)\<close>

text \<open>
  The file is either unreadable (\<open>FileNotFoundError\<close>, \<open>JSONDecodeError\<close>: \<open>None\<close>) or
  holds a list of events.
\<close>

definition load_events :: "dict list option \<Rightarrow> dict list" where
  "load_events json_file = (case json_file of None \<Rightarrow> [] | Some events \<Rightarrow> events)"

text \<open>
  \<open>insert_event\<close> prints nothing (both \<open>print\<close> calls are commented out); what it does is
  either return at line 72 without touching the file, or write the new list.
\<close>

datatype effect = Returned_early | Wrote "dict list"

definition insert_event :: "dict list option \<Rightarrow> dict \<Rightarrow> error + effect" where
  "insert_event json_file event_data =
     (let events = load_events json_file in
      if list_ex (\<lambda>e. \<not> hashable (py_get e ''title'')) events then Inl TypeError
      else
        (case subscript event_data ''title'' of
           Inl e \<Rightarrow> Inl e
         | Inr t \<Rightarrow>
             if \<not> hashable t then Inl TypeError
             else if t \<in> set (map (\<lambda>e. py_get e ''title'') events) then Inr Returned_early
             else Inr (Wrote (event_data # events))))"

text \<open>The file after a call.\<close>

definition file_after :: "dict list option \<Rightarrow> effect \<Rightarrow> dict list option" where
  "file_after json_file eff = (case eff of Returned_early \<Rightarrow> json_file | Wrote events \<Rightarrow> Some events)"

text \<open>The identity keys of a collection.\<close>

definition keys_of :: "string \<Rightarrow> dict list \<Rightarrow> json list" where
  "keys_of k collection = map (\<lambda>r. py_get r k) collection"


section \<open>Full rebuilds\<close>

subsection \<open>Company ids (\<open>companies.py\<close>)\<close>

text \<open>\<open>f"{n:02d}"\<close>: the decimal digits of \<open>n\<close>, padded with zeros on the left to two characters.\<close>

definition digit_char :: "nat \<Rightarrow> char" where
  "digit_char d = ''0123456789'' ! d"

fun decimal :: "nat \<Rightarrow> string" where
  "decimal n = (if n < 10 then [digit_char n] else decimal (n div 10) @ [digit_char (n mod 10)])"

declare decimal.simps [simp del]

definition format_02d :: "nat \<Rightarrow> string" where
  "format_02d n = (let s = decimal n in replicate (2 - length s) CHR ''0'' @ s)"

text \<open>\<open>d.update(other)\<close>: every item of \<open>other\<close>, in its order, is stored into \<open>d\<close>.\<close>

definition update :: "dict \<Rightarrow> dict \<Rightarrow> dict" where
  "update d other = fold (\<lambda>(k, v). setitem k v) other d"

text \<open>Lines 24 and 25: \<open>new_company = {"id": cid}\<close>, then \<open>new_company.update(company)\<close>.\<close>

definition new_company :: "string \<Rightarrow> dict \<Rightarrow> dict" where
  "new_company cid company = update [(''id'', Str cid)] company"

text \<open>The loop of lines 15 to 26 over the state \<open>(vn_count, ob_count, updated_companies)\<close>.\<close>

fun assign_ids :: "dict list \<Rightarrow> nat \<times> nat \<times> dict list \<Rightarrow> dict list" where
  "assign_ids [] (vn_count, ob_count, updated_companies) = updated_companies"
| "assign_ids (company # rest) (vn_count, ob_count, updated_companies) =
     (if py_get company ''country'' = Str ''Vietnam''
      then assign_ids rest
             (vn_count + 1, ob_count,
              updated_companies @ [new_company (''COMVN'' @ format_02d vn_count) company])
      else assign_ids rest
             (vn_count, ob_count + 1,
              updated_companies @ [new_company (''COMOB'' @ format_02d ob_count) company]))"

definition companies_main :: "dict list \<Rightarrow> dict list" where
  "companies_main companies = assign_ids companies (1, 1, [])"

text \<open>
  The id the specification gives the record at position \<open>i\<close>: the prefix of its partition
  and the running count, from 1, of the records of that partition up to and including it.
\<close>

definition in_vietnam :: "dict \<Rightarrow> bool" where
  "in_vietnam company = (py_get company ''country'' = Str ''Vietnam'')"

definition spec_company_id :: "dict list \<Rightarrow> nat \<Rightarrow> string" where
  "spec_company_id companies i =
     (if in_vietnam (companies ! i)
      then ''COMVN'' @ format_02d (1 + length (filter in_vietnam (take i companies)))
      else ''COMOB'' @ format_02d (1 + length (filter (\<lambda>c. \<not> in_vietnam c) (take i companies))))"

subsection \<open>Roles and badges of authors (\<open>roles_and_badges.py\<close>)\<close>

text \<open>Python's truth value of a JSON value, and the elements a \<open>for\<close> loop takes from it.\<close>

fun truthy :: "json \<Rightarrow> bool" where
  "truthy Null = False"
| "truthy (Str s) = (s \<noteq> [])"
| "truthy (Arr xs) = (xs \<noteq> [])"
| "truthy (Obj kvs) = (kvs \<noteq> [])"

fun iterate :: "json \<Rightarrow> error + json list" where
  "iterate Null = Inl TypeError"
| "iterate (Str s) = Inr (map (\<lambda>c. Str [c]) s)"
| "iterate (Arr xs) = Inr xs"
| "iterate (Obj kvs) = Inr (map (\<lambda>(k, v). Str k) kvs)"

text \<open>
  \<open>role_map\<close> and \<open>badge_map\<close> index the catalog by id (lines 16 to 22); the loop only
  looks ids up in them.
\<close>

type_synonym catalog = "json \<Rightarrow> json option"

datatype diagnostic = Role_id_not_found json | Badge_id_not_found json

text \<open>Lines 27 to 32.\<close>

definition replace_role :: "catalog \<Rightarrow> dict \<Rightarrow> error + dict \<times> diagnostic list" where
  "replace_role role_map author =
     (if map_of author ''roles'' \<noteq> None \<and> truthy (py_get author ''roles'') then
        (let role_id = py_get author ''roles'' in
         if \<not> hashable role_id then Inl TypeError
         else case role_map role_id of
                Some r \<Rightarrow> Inr (setitem ''roles'' r author, [])
              | None \<Rightarrow> Inr (author, [Role_id_not_found role_id]))
      else Inr (author, []))"

text \<open>Lines 37 to 41, over the state \<open>new_badges\<close> and the warnings printed so far.\<close>

fun badge_loop :: "catalog \<Rightarrow> json list \<Rightarrow> json list \<times> diagnostic list
    \<Rightarrow> error + json list \<times> diagnostic list" where
  "badge_loop badge_map [] (new_badges, printed) = Inr (new_badges, printed)"
| "badge_loop badge_map (b_id # rest) (new_badges, printed) =
     (if \<not> hashable b_id then Inl TypeError
      else case badge_map b_id of
             Some b \<Rightarrow> badge_loop badge_map rest (new_badges @ [b], printed)
           | None \<Rightarrow> badge_loop badge_map rest (new_badges, printed @ [Badge_id_not_found b_id]))"

text \<open>Lines 35 to 42.\<close>

definition replace_badges :: "catalog \<Rightarrow> dict \<Rightarrow> error + dict \<times> diagnostic list" where
  "replace_badges badge_map author =
     (if map_of author ''badges'' \<noteq> None \<and> truthy (py_get author ''badges'') then
        (case iterate (py_get author ''badges'') of
           Inl e \<Rightarrow> Inl e
         | Inr b_ids \<Rightarrow>
             (case badge_loop badge_map b_ids ([], []) of
                Inl e \<Rightarrow> Inl e
              | Inr (new_badges, printed) \<Rightarrow>
                  Inr (setitem ''badges'' (Arr new_badges) author, printed)))
      else Inr (author, []))"

text \<open>The body of the loop over the authors.\<close>

definition enrich_author :: "catalog \<Rightarrow> catalog \<Rightarrow> dict \<Rightarrow> error + dict \<times> diagnostic list" where
  "enrich_author role_map badge_map author =
     (case replace_role role_map author of
        Inl e \<Rightarrow> Inl e
      | Inr (author', printed) \<Rightarrow>
          (case replace_badges badge_map author' of
             Inl e \<Rightarrow> Inl e
           | Inr (author'', printed') \<Rightarrow> Inr (author'', printed @ printed')))"


section \<open>Recruitment parser (\<open>recruitments.py\<close>)\<close>

text \<open>\<open>EMOJI_PATTERN.sub(r'', text)\<close>: every run of code points above 127 is removed.\<close>

definition remove_emojis :: "string \<Rightarrow> string" where
  "remove_emojis text = filter (\<lambda>c. (of_char c :: nat) < 128) text"

text \<open>\<open>d.get(k, default)\<close>, and the text of a value where the code needs a \<open>str\<close>.\<close>

definition get_default :: "dict \<Rightarrow> string \<Rightarrow> json \<Rightarrow> json" where
  "get_default d k dflt = (case map_of d k of None \<Rightarrow> dflt | Some v \<Rightarrow> v)"

fun text_of :: "json \<Rightarrow> error + string" where
  "text_of (Str s) = Inr s"
| "text_of Null = Inl TypeError"
| "text_of (Arr xs) = Inl TypeError"
| "text_of (Obj kvs) = Inl TypeError"

text \<open>
  \<open>match = re.search(r"<label>\s*(.+)", clean_text)\<close>, then
  \<open>if match: job[key] = match.group(1).strip()\<close>.
\<close>

definition set_single_line :: "string \<Rightarrow> string \<Rightarrow> string \<Rightarrow> dict \<Rightarrow> dict" where
  "set_single_line key label clean_text job =
     (case re_search (label_line False label) clean_text of
        Some g \<Rightarrow> setitem key (Str (strip g)) job
      | None \<Rightarrow> job)"

text \<open>
  \<open>[line.strip("- ").strip() for line in g.strip().splitlines() if line.strip()]\<close> for the
  group \<open>g\<close> of a block.
\<close>

definition bullet_lines :: "string \<Rightarrow> string list" where
  "bullet_lines g =
     map (\<lambda>line. strip (strip_chars ''- '' line))
       (filter (\<lambda>line. strip line \<noteq> []) (splitlines (strip g)))"

definition set_block :: "string \<Rightarrow> string \<Rightarrow> string \<Rightarrow> string \<Rightarrow> dict \<Rightarrow> dict" where
  "set_block key start stop clean_text job =
     (case re_search (block start stop) clean_text of
        Some g \<Rightarrow> setitem key (Arr (map Str (bullet_lines g))) job
      | None \<Rightarrow> job)"

text \<open>Lines 54 to 64: the location block and its three sub-labels.\<close>

definition sub_label :: "string \<Rightarrow> string \<Rightarrow> json" where
  "sub_label label loc_block =
     (case re_search (label_line False label) loc_block of
        Some g \<Rightarrow> Str (strip g)
      | None \<Rightarrow> Str [])"

definition set_location :: "string \<Rightarrow> dict \<Rightarrow> dict" where
  "set_location clean_text job =
     (case re_search (block ''Location:'' ''Salary:'') clean_text of
        Some loc_block \<Rightarrow>
          setitem ''location''
            (Obj [(''type'', sub_label ''Type:'' loc_block),
                  (''address'', sub_label ''Address:'' loc_block),
                  (''city'', sub_label ''City:'' loc_block)]) job
      | None \<Rightarrow> job)"

text \<open>Lines 34 to 36: the company is an object with the one field \<open>name\<close>.\<close>

definition set_company :: "string \<Rightarrow> dict \<Rightarrow> dict" where
  "set_company clean_text job =
     (case re_search (label_line False ''Company:'') clean_text of
        Some g \<Rightarrow> setitem ''company'' (Obj [(''name'', Str (strip g))]) job
      | None \<Rightarrow> job)"

text \<open>Lines 96 to 104.\<close>

definition set_apply :: "string \<Rightarrow> dict \<Rightarrow> dict" where
  "set_apply clean_text job =
     (let apply = [];
          apply = (case re_search (label_no_break ''Email:'') clean_text of
                     Some g \<Rightarrow> setitem ''email'' (Str (strip g)) apply
                   | None \<Rightarrow> apply);
          apply = (case re_search (label_no_break ''Contact:'') clean_text of
                     Some g \<Rightarrow> setitem ''contact_person'' (Str (strip g)) apply
                   | None \<Rightarrow> apply)
      in if apply \<noteq> [] then setitem ''apply'' (Obj apply) job else job)"

definition parse_job_post :: "dict \<Rightarrow> error + dict" where
  "parse_job_post post =
     (case text_of (get_default post ''message'' (Str [])) of
        Inl e \<Rightarrow> Inl e
      | Inr message \<Rightarrow>
          (let clean_text = remove_emojis message;
               job = [(''id'', py_get post ''id''),
                      (''created_time'', py_get post ''created_time''),
                      (''full_picture'', py_get post ''full_picture'')];
               job = set_company clean_text job;
               job = set_single_line ''title'' ''Position:'' clean_text job;
               job = set_single_line ''description'' ''Description:'' clean_text job;
               job = set_single_line ''level'' ''Level:'' clean_text job;
               job = set_location clean_text job;
               job = set_single_line ''salary'' ''Salary:'' clean_text job;
               job = set_single_line ''work_time'' ''Work Time:'' clean_text job;
               job = set_block ''requirements'' ''Requirements:'' ''Benefits:'' clean_text job;
               job = set_block ''benefits'' ''Benefits:'' ''Deadline:'' clean_text job;
               job = set_single_line ''apply_deadline'' ''Deadline:'' clean_text job;
               job = set_apply clean_text job;
               job = set_block ''tags'' ''Tags:'' ''Apply:'' clean_text job
           in Inr job))"


section \<open>Event parser (\<open>events.py\<close>, \<open>post_to_json\<close>)\<close>

definition patterns :: "(string \<times> regex) list" where
  "patterns =
     [(''title'', label_line True ''Title:''),
      (''date'', label_line True ''Date:''),
      (''location'', label_line True ''Location:''),
      (''categories'', label_line True ''Categories:''),
      (''members'', label_line True ''Members:''),
      (''logo'', label_line True ''Logo:''),
      (''background'', label_line True ''Background:''),
      (''url'', label_line True ''URL:''),
      (''description'', label_line True ''Description:'')]"

text \<open>Lines 32 to 44: the value stored under \<open>key\<close>.\<close>

definition field_value :: "string \<Rightarrow> regex \<Rightarrow> string \<Rightarrow> json" where
  "field_value key pattern post_text =
     (case re_search pattern post_text of
        Some g \<Rightarrow>
          (let value = strip g in
           if key = ''categories''
           then Arr (map (\<lambda>c. Str (strip c)) (split (\<lambda>c. c = CHR ''|'' \<or> c = CHR '','') value))
           else if lower value = ''null'' then Null
           else Str value)
      | None \<Rightarrow> Null)"

text \<open>
  Lines 31 to 54: the loop over \<open>patterns\<close>, then the three default rules. These read
  keys the loop has just set, so \<open>data["logo"]\<close> and the like cannot raise.
\<close>

definition post_to_json :: "string \<Rightarrow> dict" where
  "post_to_json post_text =
     (let data = fold (\<lambda>(key, pattern) data. setitem key (field_value key pattern post_text) data)
                   patterns [];
          data = (if \<not> truthy (py_get data ''logo'') then setitem ''logo'' Null data else data);
          data = (if \<not> truthy (py_get data ''members'') then setitem ''members'' Null data else data);
          data = (if \<not> truthy (py_get data ''background'')
                  then setitem ''background'' (Str ''linear-gradient(45deg, #FDEB71, #F8D800)'') data
                  else data)
      in data)"


section \<open>Posts and news (\<open>facebook_posts.py\<close>, \<open>news.py\<close>)\<close>

text \<open>
  \<open>id_pattern = r"#([A-Z]\d{3})"\<close> and \<open>ca_category_pattern = r"#CA([A-Za-z0-9_]+)"\<close>, both
  with \<open>re.IGNORECASE\<close>, under which \<open>[A-Z]\<close> holds of the letters of both cases.
\<close>

definition id_pattern :: regex where
  "id_pattern =
     Regex (lit True ''#'')
       [One (\<lambda>c. ascii_upper c \<or> ascii_lower c), One isdigit, One isdigit, One isdigit] []"

definition ca_category_pattern :: regex where
  "ca_category_pattern =
     Regex (lit True ''#CA'')
       [Greedy 1 (\<lambda>c. ascii_upper c \<or> ascii_lower c \<or> isdigit c \<or> c = CHR ''_'')] []"

definition title_pattern :: regex where
  "title_pattern = label_line True ''Title:''"

definition description_pattern :: regex where
  "description_pattern = label_rest True ''Description:''"

text \<open>
  Lines 61 to 73 of \<open>facebook_posts.py\<close>, lines 38 to 50 of \<open>news.py\<close>: the author the
  hashtag names, when the catalog \<open>authors_dict\<close> has it, and the category hashtag.
\<close>

definition author_id :: "string \<Rightarrow> string option" where
  "author_id message = map_option upper (re_search id_pattern message)"

definition attach_author :: "catalog \<Rightarrow> string \<Rightarrow> dict \<Rightarrow> dict" where
  "attach_author authors_dict message post =
     (case author_id message of
        Some a \<Rightarrow>
          (case authors_dict (Str a) of
             Some author_info \<Rightarrow> setitem ''author'' author_info post
           | None \<Rightarrow> post)
      | None \<Rightarrow> post)"

definition attach_category :: "string \<Rightarrow> dict \<Rightarrow> dict" where
  "attach_category message post =
     (case re_search ca_category_pattern message of
        Some category \<Rightarrow> setitem ''category'' (Str category) post
      | None \<Rightarrow> post)"

text \<open>Lines 43 to 58 of \<open>facebook_posts.py\<close>: the title of a post with a message.\<close>

definition first_line :: "string \<Rightarrow> error + string" where
  "first_line message =
     (case split (\<lambda>c. c = LF) message of [] \<Rightarrow> Inl IndexError | line # lines \<Rightarrow> Inr (strip line))"

definition post_title :: "string \<Rightarrow> error + string" where
  "post_title message =
     (let title = (case re_search title_pattern message of
                     Some g \<Rightarrow> Some (strip g)
                   | None \<Rightarrow> None)
      in case title of
           Some t \<Rightarrow> if t \<noteq> [] then Inr t else first_line message
         | None \<Rightarrow> first_line message)"

definition post_description :: "string \<Rightarrow> json" where
  "post_description message =
     (case re_search description_pattern message of
        Some g \<Rightarrow> Str (strip g)
      | None \<Rightarrow> Null)"

text \<open>
  The body of the loop of \<open>facebook_posts.py\<close> for one post: \<open>None\<close> when the post is
  skipped (no message) or not kept (no \<open>#posts\<close>), else the record appended to
  \<open>facebook_posts\<close>.
\<close>

definition copy_if_present :: "string \<Rightarrow> dict \<Rightarrow> dict \<Rightarrow> dict" where
  "copy_if_present key post clean_post =
     (case map_of post key of Some v \<Rightarrow> setitem key v clean_post | None \<Rightarrow> clean_post)"

definition clean_post_of :: "catalog \<Rightarrow> dict \<Rightarrow> error + dict option" where
  "clean_post_of authors_dict post =
     (let message = get_default post ''message'' (Str []) in
      if \<not> truthy message then Inr None
      else
        (case text_of message of
           Inl e \<Rightarrow> Inl e
         | Inr message \<Rightarrow>
             (case post_title message of
                Inl e \<Rightarrow> Inl e
              | Inr title \<Rightarrow>
                  (let post = attach_author authors_dict message post;
                       post = attach_category message post
                   in case subscript post ''id'' of
                        Inl e \<Rightarrow> Inl e
                      | Inr pid \<Rightarrow>
                          (case subscript post ''created_time'' of
                             Inl e \<Rightarrow> Inl e
                           | Inr created \<Rightarrow>
                               (case subscript post ''permalink_url'' of
                                  Inl e \<Rightarrow> Inl e
                                | Inr permalink \<Rightarrow>
                                    (let clean_post =
                                           [(''id'', pid), (''title'', Str title),
                                            (''description'', post_description message),
                                            (''created_time'', created),
                                            (''permalink_url'', permalink),
                                            (''full_picture'', py_get post ''full_picture'')];
                                         clean_post = copy_if_present ''author'' post clean_post;
                                         clean_post = copy_if_present ''category'' post clean_post
                                     in if contains ''#posts'' (lower message)
                                        then Inr (Some clean_post) else Inr None)))))))"


section \<open>The main loops over the posts\<close>

text \<open>
  \<open>recruitments.py\<close>, lines 130 to 139, for one post: the new \<open>data\<close> and what is printed.
  \<open>message.lower()\<close> raises \<open>AttributeError\<close> when the message is not a string.
\<close>

definition ingest_post :: "dict list \<Rightarrow> dict \<Rightarrow> error + dict list \<times> report option" where
  "ingest_post data post =
     (case get_default post ''message'' (Str []) of
        Str message \<Rightarrow>
          if contains ''#recruitment'' (lower message) then
            (case parse_job_post post of
               Inl e \<Rightarrow> Inl e
             | Inr job_json \<Rightarrow>
                 (case merge_job data job_json of
                    Inl e \<Rightarrow> Inl e
                  | Inr (data', rep) \<Rightarrow> Inr (data', Some rep)))
          else Inr (data, None)
      | _ \<Rightarrow> Inl AttributeError)"

text \<open>\<open>events.py\<close>, lines 95 to 104, for one post: what happens to the file.\<close>

definition ingest_event :: "dict list option \<Rightarrow> dict \<Rightarrow> error + effect" where
  "ingest_event json_file post =
     (let message = get_default post ''message'' (Str []) in
      if \<not> truthy message then Inr Returned_early
      else
        (case message of
           Str message \<Rightarrow>
             if contains ''#events'' (lower message)
             then insert_event json_file (post_to_json message)
             else Inr Returned_early
         | _ \<Rightarrow> Inl AttributeError))"


text \<open>
  The body of the loop of \<open>news.py\<close> for one post: the post with its author and category
  attached, when the message has \<open>#news\<close>. \<open>id_pattern.search\<close> raises \<open>TypeError\<close> on a
  message that is not a string.
\<close>

definition news_post_of :: "catalog \<Rightarrow> dict \<Rightarrow> error + dict option" where
  "news_post_of authors_dict post =
     (case text_of (get_default post ''message'' (Str [])) of
        Inl e \<Rightarrow> Inl e
      | Inr message \<Rightarrow>
          (let post = attach_author authors_dict message post;
               post = attach_category message post
           in if contains ''#news'' (lower message) then Inr (Some post) else Inr None))"


section \<open>The rules of the specification\<close>

subsection \<open>The worked example\<close>

definition example_text :: string where
  "example_text =
     ''Title: Backend Engineer'' @ [LF] @
     ''Position: Backend Engineer'' @ [LF] @
     ''Location:Type: Remote Address: N/A City: HCMC Salary:1200'' @ [LF] @
     ''Salary: 1200 USD'' @ [LF] @
     ''Requirements:'' @ [LF] @ ''- Go'' @ [LF] @ ''- SQL'' @ [LF] @
     ''Benefits:'' @ [LF] @ ''- Insurance'' @ [LF] @
     ''Deadline: 2025-12-01''"

subsection \<open>The single-line rule\<close>

text \<open>The label stands at the start of \<open>s\<close>, letter case ignored or not.\<close>

definition label_at :: "bool \<Rightarrow> string \<Rightarrow> string \<Rightarrow> bool" where
  "label_at ignorecase label s =
     (length label \<le> length s \<and>
      list_all2 (\<lambda>l c. if ignorecase then lower_char c = lower_char l else c = l)
        label (take (length label) s))"

text \<open>
  The rule as the specification words it: the first line that begins with the label,
  letter case ignored, gives the rest of the line, trimmed.
\<close>

definition spec_single_line :: "string \<Rightarrow> string \<Rightarrow> string option" where
  "spec_single_line label s =
     (case List.find (label_at True label) (split (\<lambda>c. c = LF) s) of
        None \<Rightarrow> None
      | Some line \<Rightarrow> Some (strip (drop (length label) line)))"

text \<open>
  The rule the patterns \<open>r"<label>\s*(.+)"\<close> follow: the first place of the text, anywhere
  in a line, where the label stands and is followed by some character other than a line
  feed; what is found is the text after the label. Its value skips the white space after
  the label, line breaks included, and is the rest of that line, trimmed.
\<close>

fun found_label :: "bool \<Rightarrow> string \<Rightarrow> string \<Rightarrow> string option" where
  "found_label ignorecase label [] = None"
| "found_label ignorecase label (c # cs) =
     (if label_at ignorecase label (c # cs) \<and> list_ex (\<lambda>x. x \<noteq> LF) (drop (length label) (c # cs))
      then Some (drop (length label) (c # cs))
      else found_label ignorecase label cs)"

definition line_value :: "string \<Rightarrow> string" where
  "line_value rest = strip (takeWhile (\<lambda>c. c \<noteq> LF) (dropWhile isspace rest))"

text \<open>The single-line fields of the two parsers, each with its label.\<close>

definition recruitment_labels :: "(string \<times> string) list" where
  "recruitment_labels =
     [(''title'', ''Position:''), (''description'', ''Description:''), (''level'', ''Level:''),
      (''salary'', ''Salary:''), (''work_time'', ''Work Time:''), (''apply_deadline'', ''Deadline:'')]"

definition event_labels :: "(string \<times> string) list" where
  "event_labels =
     [(''title'', ''Title:''), (''date'', ''Date:''), (''location'', ''Location:''),
      (''members'', ''Members:''), (''logo'', ''Logo:''), (''background'', ''Background:''),
      (''url'', ''URL:''), (''description'', ''Description:'')]"

text \<open>
  The value of an event field: its default when the label is not found, when the value
  reads \<open>null\<close> in any letter case, and, for \<open>members\<close>, \<open>logo\<close> and \<open>background\<close>, when
  the value is empty.
\<close>

definition event_default :: "string \<Rightarrow> json" where
  "event_default key =
     (if key = ''background'' then Str ''linear-gradient(45deg, #FDEB71, #F8D800)'' else Null)"

definition event_value :: "string \<Rightarrow> string option \<Rightarrow> json" where
  "event_value key found =
     (case found of
        None \<Rightarrow> event_default key
      | Some rest \<Rightarrow>
          (let v = line_value rest in
           if lower v = ''null'' \<or> (v = [] \<and> key \<in> set [''members'', ''logo'', ''background''])
           then event_default key else Str v))"

subsection \<open>The title fallback\<close>

text \<open>The first non-empty line of a text, as the specification words the fallback.\<close>

definition spec_first_nonempty_line :: "string \<Rightarrow> string option" where
  "spec_first_nonempty_line s = List.find (\<lambda>line. line \<noteq> []) (split (\<lambda>c. c = LF) s)"


section \<open>Properties of the store merger\<close>

lemma any_same_id_Inr:
  "subscript job_json ''id'' = Inr jid \<Longrightarrow>
   any_same_id data job_json = Inr (jid \<in> set (keys_of ''id'' data))"
  by (induction data) (auto simp: keys_of_def)

lemma any_same_id_Inl:
  "subscript job_json ''id'' = Inl e \<Longrightarrow>
   any_same_id data job_json = (if data = [] then Inr False else Inl e)"
  by (cases data) auto

lemma subscript_get: "subscript d k = Inr v \<Longrightarrow> py_get d k = v"
  by (auto simp: subscript_def py_get_def split: option.splits)

lemma merge_job_skip:
  assumes "subscript job_json ''id'' = Inr jid" and "jid \<in> set (keys_of ''id'' data)"
  shows "merge_job data job_json = Inr (data, Skipped_duplicate_job_ID jid)"
  using assms by (simp add: merge_job_def any_same_id_Inr)

lemma merge_job_insert:
  assumes "subscript job_json ''id'' = Inr jid" and "jid \<notin> set (keys_of ''id'' data)"
    and "subscript job_json ''title'' = Inr t"
  shows "merge_job data job_json = Inr (job_json # data, Added_job t)"
  using assms by (simp add: merge_job_def any_same_id_Inr)

lemma merge_job_cases:
  assumes "merge_job data job_json = Inr (data', rep)"
  shows "(data' = data \<and> py_get job_json ''id'' \<in> set (keys_of ''id'' data)
            \<and> rep = Skipped_duplicate_job_ID (py_get job_json ''id''))
       \<or> (data' = job_json # data \<and> py_get job_json ''id'' \<notin> set (keys_of ''id'' data)
            \<and> subscript job_json ''title'' = Inr (py_get job_json ''title'')
            \<and> rep = Added_job (py_get job_json ''title''))"
proof (cases "subscript job_json ''id''")
  case (Inr jid)
  then have g: "py_get job_json ''id'' = jid" by (rule subscript_get)
  show ?thesis
    using assms Inr g
    by (auto simp: merge_job_def any_same_id_Inr subscript_get split: sum.splits if_splits)
next
  case (Inl e)
  show ?thesis
  proof (cases data)
    case Nil
    with assms Inl show ?thesis
      by (auto simp: merge_job_def keys_of_def subscript_get split: sum.splits)
  next
    case (Cons j js)
    with assms Inl show ?thesis by (simp add: merge_job_def)
  qed
qed

lemma insert_event_cases:
  assumes "insert_event json_file event_data = Inr eff"
  shows "(eff = Returned_early \<and> py_get event_data ''title'' \<in> set (keys_of ''title'' (load_events json_file)))
       \<or> (eff = Wrote (event_data # load_events json_file)
            \<and> py_get event_data ''title'' \<notin> set (keys_of ''title'' (load_events json_file)))"
  using assms
  by (auto simp: insert_event_def Let_def keys_of_def subscript_get split: sum.splits if_splits)

lemma insert_event_hashable:
  assumes "insert_event json_file event_data = Inr eff"
  shows "hashable (py_get event_data ''title'')
       \<and> (\<forall>e \<in> set (load_events json_file). hashable (py_get e ''title''))
       \<and> subscript event_data ''title'' = Inr (py_get event_data ''title'')"
  using assms
  by (auto simp: insert_event_def Let_def list_ex_iff subscript_get split: sum.splits if_splits)

lemma merge_job_returns:
  assumes "subscript job_json ''id'' = Inr jid" and "subscript job_json ''title'' = Inr t"
  shows "\<exists>res. merge_job data job_json = Inr res"
  using assms by (simp add: merge_job_def any_same_id_Inr)

lemma insert_event_returns:
  assumes "subscript event_data ''title'' = Inr t" and "hashable t"
    and "list_all (\<lambda>e. hashable (py_get e ''title'')) (load_events json_file)"
  shows "\<exists>eff. insert_event json_file event_data = Inr eff"
  using assms by (auto simp: insert_event_def Let_def list_ex_iff list_all_iff)

lemma load_events_file_after:
  "load_events (file_after json_file (Wrote events)) = events"
  "file_after json_file Returned_early = json_file"
  by (simp_all add: load_events_def file_after_def)


subsection \<open>The record that breaks the insert branch\<close>

text \<open>
  C1 (identity-based merge contract). The claim: a candidate whose identity key is in the
  collection is skipped and reported as a duplicate, any other candidate is put at
  position 0 and reported as inserted. \<open>parse_job_post\<close> sets \<open>title\<close> only when a
  \<open>Position:\<close> line is found, and line 137 prints \<open>job_json['title']\<close> right after the
  insertion: for a recruitment record without a title and with a new id the loop body
  raises \<open>KeyError\<close>, so nothing is reported and nothing is written back. The theorem
  evaluates the parser, the merge and the whole loop body at the post with the message
  \<open>#recruitment\<close> on an empty collection.
\<close>

theorem merge_job_untitled_raises:
  "parse_job_post [(''id'', Str ''1''), (''message'', Str ''#recruitment'')]
     = Inr [(''id'', Str ''1''), (''created_time'', Null), (''full_picture'', Null)]
   \<and> merge_job [] [(''id'', Str ''1''), (''created_time'', Null), (''full_picture'', Null)]
     = Inl (KeyError ''title'')
   \<and> ingest_post [] [(''id'', Str ''1''), (''message'', Str ''#recruitment'')]
     = Inl (KeyError ''title'')"
  by code_simp


subsection \<open>Idempotence\<close>

text \<open>
  C2 (merge idempotence). Merging a candidate into a collection and then merging it
  again into the result gives the collection of the first merge, and the second merge is
  a skipped duplicate: for recruitment posts (a record with its \<open>id\<close> key, which
  \<open>parse_job_post\<close> always sets) the list is returned as it is with the duplicate-id line
  printed, for events \<open>insert_event\<close> returns early and leaves the file as the first call
  left it.
\<close>

theorem merge_idempotent:
  "(subscript job_json ''id'' = Inr jid \<and> merge_job data job_json = Inr (data', rep) \<longrightarrow>
      merge_job data' job_json = Inr (data', Skipped_duplicate_job_ID jid))
   \<and> (insert_event json_file event_data = Inr eff \<longrightarrow>
      insert_event (file_after json_file eff) event_data = Inr Returned_early
      \<and> file_after (file_after json_file eff) Returned_early = file_after json_file eff)"
proof (intro conjI impI)
  assume a: "subscript job_json ''id'' = Inr jid \<and> merge_job data job_json = Inr (data', rep)"
  then have g: "py_get job_json ''id'' = jid" by (simp add: subscript_get)
  from a merge_job_cases [of data job_json data' rep]
  have "jid \<in> set (keys_of ''id'' data')"
    using g by (auto simp: keys_of_def)
  with a show "merge_job data' job_json = Inr (data', Skipped_duplicate_job_ID jid)"
    by (simp add: merge_job_skip)
next
  assume i: "insert_event json_file event_data = Inr eff"
  let ?t = "py_get event_data ''title''"
  from insert_event_hashable [OF i]
  have h: "hashable ?t" "\<forall>e \<in> set (load_events json_file). hashable (py_get e ''title'')"
    "subscript event_data ''title'' = Inr ?t" by auto
  from insert_event_cases [OF i]
  have "?t \<in> set (keys_of ''title'' (load_events (file_after json_file eff)))
        \<and> (\<forall>e \<in> set (load_events (file_after json_file eff)). hashable (py_get e ''title''))"
    using h by (auto simp: load_events_file_after keys_of_def)
  then show "insert_event (file_after json_file eff) event_data = Inr Returned_early"
    using h by (auto simp: insert_event_def Let_def list_ex_iff keys_of_def)
next
  show "file_after (file_after json_file eff) Returned_early = file_after json_file eff"
    by (simp add: load_events_file_after)
qed

theorem merge_idempotent_witness:
  "merge_job [] [(''id'', Str ''123''), (''title'', Str ''Engineer'')]
     = Inr ([[(''id'', Str ''123''), (''title'', Str ''Engineer'')]], Added_job (Str ''Engineer''))
   \<and> merge_job [[(''id'', Str ''123''), (''title'', Str ''Engineer'')]]
        [(''id'', Str ''123''), (''title'', Str ''Engineer'')]
     = Inr ([[(''id'', Str ''123''), (''title'', Str ''Engineer'')]],
            Skipped_duplicate_job_ID (Str ''123''))
   \<and> insert_event None [(''title'', Str ''Meetup'')] = Inr (Wrote [[(''title'', Str ''Meetup'')]])
   \<and> insert_event (Some [[(''title'', Str ''Meetup'')]]) [(''title'', Str ''Meetup'')]
     = Inr Returned_early"
  using merge_idempotent [of "[(''id'', Str ''123''), (''title'', Str ''Engineer'')]" "Str ''123''"
      "[]" "[[(''id'', Str ''123''), (''title'', Str ''Engineer'')]]" "Added_job (Str ''Engineer'')"
      None "[(''title'', Str ''Meetup'')]" "Wrote [[(''title'', Str ''Meetup'')]]"]
  by (simp add: merge_job_def subscript_def py_get_def insert_event_def load_events_def
      file_after_def)


subsection \<open>Uniqueness of identity keys\<close>

text \<open>
  C3 (identity-key uniqueness invariant). If the identity keys of a collection are
  pairwise distinct (as many distinct keys as records), they still are after a merge:
  for recruitment posts in the list the loop body returns, for events in the file
  \<open>insert_event\<close> leaves behind.
\<close>

theorem merge_keeps_keys_unique:
  "(card (set (keys_of ''id'' data)) = length data \<and> merge_job data job_json = Inr (data', rep)
      \<longrightarrow> card (set (keys_of ''id'' data')) = length data')
   \<and> (card (set (keys_of ''title'' (load_events json_file))) = length (load_events json_file)
       \<and> insert_event json_file event_data = Inr eff
      \<longrightarrow> card (set (keys_of ''title'' (load_events (file_after json_file eff))))
          = length (load_events (file_after json_file eff)))"
proof (intro conjI impI)
  assume a: "card (set (keys_of ''id'' data)) = length data \<and> merge_job data job_json = Inr (data', rep)"
  then have d: "distinct (keys_of ''id'' data)"
    by (simp add: card_distinct keys_of_def)
  from a merge_job_cases [of data job_json data' rep]
  have "distinct (keys_of ''id'' data')"
    using d by (auto simp: keys_of_def)
  then show "card (set (keys_of ''id'' data')) = length data'"
    using distinct_card [of "keys_of ''id'' data'"] by (simp add: keys_of_def)
next
  let ?es = "load_events json_file" and ?es' = "load_events (file_after json_file eff)"
  assume a: "card (set (keys_of ''title'' ?es)) = length ?es
     \<and> insert_event json_file event_data = Inr eff"
  then have d: "distinct (keys_of ''title'' ?es)"
    by (simp add: card_distinct keys_of_def)
  from a insert_event_cases [of json_file event_data eff]
  have "distinct (keys_of ''title'' ?es')"
    using d by (auto simp: keys_of_def load_events_file_after)
  then show "card (set (keys_of ''title'' ?es')) = length ?es'"
    using distinct_card [of "keys_of ''title'' ?es'"] by (simp add: keys_of_def)
qed

theorem merge_keeps_keys_unique_witness:
  "card (set (keys_of ''id'' [[(''id'', Str ''7'')]])) = length [[(''id'', Str ''7'')]]
   \<and> merge_job [[(''id'', Str ''7'')]] [(''id'', Str ''8''), (''title'', Str ''Tester'')]
       = Inr ([[(''id'', Str ''8''), (''title'', Str ''Tester'')], [(''id'', Str ''7'')]],
              Added_job (Str ''Tester''))
   \<and> card (set (keys_of ''id'' [[(''id'', Str ''8''), (''title'', Str ''Tester'')], [(''id'', Str ''7'')]]))
       = length [[(''id'', Str ''8''), (''title'', Str ''Tester'')], [(''id'', Str ''7'')]]
   \<and> card (set (keys_of ''title'' (load_events (Some [[(''title'', Str ''Demo day'')]]))))
       = length (load_events (Some [[(''title'', Str ''Demo day'')]]))
   \<and> insert_event (Some [[(''title'', Str ''Demo day'')]]) [(''title'', Str ''Meetup'')]
       = Inr (Wrote [[(''title'', Str ''Meetup'')], [(''title'', Str ''Demo day'')]])
   \<and> card (set (keys_of ''title''
         (load_events (file_after (Some [[(''title'', Str ''Demo day'')]])
            (Wrote [[(''title'', Str ''Meetup'')], [(''title'', Str ''Demo day'')]])))))
       = length (load_events (file_after (Some [[(''title'', Str ''Demo day'')]])
            (Wrote [[(''title'', Str ''Meetup'')], [(''title'', Str ''Demo day'')]])))"
  using merge_keeps_keys_unique [of "[[(''id'', Str ''7'')]]"
      "[(''id'', Str ''8''), (''title'', Str ''Tester'')]"
      "[[(''id'', Str ''8''), (''title'', Str ''Tester'')], [(''id'', Str ''7'')]]"
      "Added_job (Str ''Tester'')"
      "Some [[(''title'', Str ''Demo day'')]]" "[(''title'', Str ''Meetup'')]"
      "Wrote [[(''title'', Str ''Meetup'')], [(''title'', Str ''Demo day'')]]"]
  by (simp add: merge_job_def subscript_def py_get_def insert_event_def load_events_def
      file_after_def keys_of_def)


section \<open>Properties of the full rebuilds\<close>

lemma map_of_setitem: "map_of (setitem k v d) k' = (if k' = k then Some v else map_of d k')"
  by (induction d) auto

lemma map_of_update:
  "distinct (map fst other) \<Longrightarrow>
   map_of (update d other) k = (case map_of other k of None \<Rightarrow> map_of d k | Some v \<Rightarrow> Some v)"
  unfolding update_def
proof (induction other arbitrary: d)
  case Nil
  then show ?case by simp
next
  case (Cons p other)
  obtain k' v' where p: "p = (k', v')" by (cases p)
  from Cons.prems have nk: "map_of other k' = None" and d: "distinct (map fst other)"
    by (auto simp: p map_of_eq_None_iff)
  show ?case
    using Cons.IH [OF d, of "setitem k' v' d"] nk
    by (auto simp: p map_of_setitem split: option.splits)
qed

lemma assign_ids_append:
  "assign_ids cs (vn, ob, upd) = upd @ assign_ids cs (vn, ob, [])"
proof (induction cs arbitrary: vn ob upd)
  case Nil
  then show ?case by simp
next
  case (Cons c cs)
  show ?case
    using Cons [of "Suc vn" ob "upd @ [new_company (''COMVN'' @ format_02d vn) c]"]
      Cons [of "Suc vn" ob "[new_company (''COMVN'' @ format_02d vn) c]"]
      Cons [of vn "Suc ob" "upd @ [new_company (''COMOB'' @ format_02d ob) c]"]
      Cons [of vn "Suc ob" "[new_company (''COMOB'' @ format_02d ob) c]"]
    by simp
qed

lemma assign_ids_length: "length (assign_ids cs (vn, ob, upd)) = length upd + length cs"
  by (induction cs arbitrary: vn ob upd) auto

lemma assign_ids_Cons:
  "assign_ids (c # cs) (vn, ob, []) =
     (if in_vietnam c
      then new_company (''COMVN'' @ format_02d vn) c # assign_ids cs (Suc vn, ob, [])
      else new_company (''COMOB'' @ format_02d ob) c # assign_ids cs (vn, Suc ob, []))"
  using assign_ids_append [of cs "Suc vn" ob "[new_company (''COMVN'' @ format_02d vn) c]"]
    assign_ids_append [of cs vn "Suc ob" "[new_company (''COMOB'' @ format_02d ob) c]"]
  by (simp add: in_vietnam_def)

lemma assign_ids_nth:
  "i < length cs \<Longrightarrow>
   assign_ids cs (vn, ob, []) ! i =
     new_company
       (if in_vietnam (cs ! i)
        then ''COMVN'' @ format_02d (vn + length (filter in_vietnam (take i cs)))
        else ''COMOB'' @ format_02d (ob + length (filter (\<lambda>c. \<not> in_vietnam c) (take i cs))))
       (cs ! i)"
proof (induction cs arbitrary: i vn ob)
  case Nil
  then show ?case by simp
next
  case (Cons c cs)
  show ?case
  proof (cases i)
    case 0
    then show ?thesis by (simp add: assign_ids_Cons del: assign_ids.simps)
  next
    case (Suc j)
    with Cons.prems have j: "j < length cs" by simp
    show ?thesis
      using Cons.IH [OF j, of "Suc vn" ob] Cons.IH [OF j, of vn "Suc ob"]
      by (simp add: Suc assign_ids_Cons del: assign_ids.simps)
  qed
qed

lemma companies_main_nth:
  "i < length companies \<Longrightarrow>
   companies_main companies ! i = new_company (spec_company_id companies i) (companies ! i)"
  by (simp add: companies_main_def assign_ids_nth spec_company_id_def)

lemma map_of_new_company:
  "distinct (map fst company) \<Longrightarrow>
   map_of (new_company cid company) k =
     (case map_of company k of
        None \<Rightarrow> if k = ''id'' then Some (Str cid) else None
      | Some v \<Rightarrow> Some v)"
  by (auto simp: new_company_def map_of_update split: option.splits)

text \<open>
  C8 (sequential ids of companies), as stated: every record gets the id of its partition
  and running counter. A record that already has an \<open>id\<close> keeps it, because
  \<open>new_company.update(company)\<close> stores the record's own fields over the fresh id.
\<close>

theorem companies_own_id_kept:
  "py_get (companies_main [[(''id'', Str ''X''), (''country'', Str ''Vietnam'')]] ! 0) ''id'' = Str ''X''
   \<and> spec_company_id [[(''id'', Str ''X''), (''country'', Str ''Vietnam'')]] 0 = ''COMVN01''"
  by (simp add: companies_main_def new_company_def update_def py_get_def spec_company_id_def
      in_vietnam_def format_02d_def decimal.simps digit_char_def)

text \<open>
  C8, amended. The rebuild returns one record per input record, in the input order. The
  record at position \<open>i\<close> (a JSON object, each key once) keeps every field of the input
  record, gains no key but \<open>id\<close>, and, when the input record has no \<open>id\<close> of its own, has
  the id \<open>COMVN\<close> or \<open>COMOB\<close> followed by the two-digit running count, from 1, of the
  records of its partition (country \<open>Vietnam\<close>, or any other) up to and including it.
\<close>

theorem companies_ids_assigned:
  assumes "i < length companies" and "distinct (map fst (companies ! i))"
  shows "length (companies_main companies) = length companies
    \<and> (\<forall>k v. map_of (companies ! i) k = Some v
          \<longrightarrow> map_of (companies_main companies ! i) k = Some v)
    \<and> (\<forall>k. k \<noteq> ''id'' \<and> map_of (companies ! i) k = None
          \<longrightarrow> map_of (companies_main companies ! i) k = None)
    \<and> (map_of (companies ! i) ''id'' = None
          \<longrightarrow> map_of (companies_main companies ! i) ''id''
              = Some (Str (spec_company_id companies i)))"
  using assms
  by (simp add: companies_main_nth map_of_new_company)
    (simp add: companies_main_def assign_ids_length)

theorem companies_ids_assigned_witness:
  "(2::nat) < length [[(''name'', Str ''A''), (''country'', Str ''Vietnam'')],
                      [(''name'', Str ''B''), (''country'', Str ''Japan'')],
                      [(''name'', Str ''C''), (''country'', Str ''Vietnam'')]]
   \<and> distinct (map fst [(''name'', Str ''C''), (''country'', Str ''Vietnam'')])
   \<and> map_of (companies_main [[(''name'', Str ''A''), (''country'', Str ''Vietnam'')],
                              [(''name'', Str ''B''), (''country'', Str ''Japan'')],
                              [(''name'', Str ''C''), (''country'', Str ''Vietnam'')]] ! 2) ''id''
       = Some (Str ''COMVN02'')
   \<and> map_of (companies_main [[(''name'', Str ''A''), (''country'', Str ''Vietnam'')],
                              [(''name'', Str ''B''), (''country'', Str ''Japan'')],
                              [(''name'', Str ''C''), (''country'', Str ''Vietnam'')]] ! 2) ''name''
       = Some (Str ''C'')"
  using companies_ids_assigned [of 2 "[[(''name'', Str ''A''), (''country'', Str ''Vietnam'')],
                      [(''name'', Str ''B''), (''country'', Str ''Japan'')],
                      [(''name'', Str ''C''), (''country'', Str ''Vietnam'')]]"]
  by (simp add: spec_company_id_def in_vietnam_def py_get_def format_02d_def decimal.simps
      digit_char_def)

lemma badge_loop_result:
  "list_all hashable b_ids \<Longrightarrow>
   badge_loop badge_map b_ids (new_badges, printed) =
     Inr (new_badges @ List.map_filter badge_map b_ids,
          printed @ map Badge_id_not_found (filter (\<lambda>b_id. badge_map b_id = None) b_ids))"
  by (induction b_ids arbitrary: new_badges printed) (auto simp: List.map_filter_simps)

text \<open>
  C9 (badge resolution). For an author whose \<open>badges\<close> is a list of ids (strings), the
  replacement returns (it raises nothing), the author's \<open>badges\<close> becomes the list of the
  catalog entities of the ids the catalog has, in the order of the ids, every other
  field stays as it is, and one warning is printed for each id the catalog lacks, in
  order.
\<close>

theorem badges_resolved:
  assumes "map_of author ''badges'' = Some (Arr (map Str ids))"
  shows "\<exists>author'. replace_badges badge_map author =
           Inr (author', map Badge_id_not_found (filter (\<lambda>b_id. badge_map b_id = None) (map Str ids)))
         \<and> map_of author' = (map_of author)(''badges'' \<mapsto> Arr (List.map_filter badge_map (map Str ids)))"
proof (cases ids)
  case Nil
  with assms show ?thesis
    by (auto simp: replace_badges_def py_get_def List.map_filter_simps)
next
  case (Cons i is')
  have h: "list_all hashable (map Str ids)" by (simp add: list_all_iff)
  show ?thesis
    using assms Cons badge_loop_result [OF h, of badge_map "[]" "[]"]
    by (auto simp: replace_badges_def py_get_def map_of_setitem)
qed

theorem badges_resolved_witness:
  "map_of [(''id'', Str ''A001''), (''badges'', Arr (map Str [''B1'', ''B9'', ''B2'']))] ''badges''
     = Some (Arr (map Str [''B1'', ''B9'', ''B2'']))
   \<and> replace_badges
        [Str ''B1'' \<mapsto> Obj [(''id'', Str ''B1'')], Str ''B2'' \<mapsto> Obj [(''id'', Str ''B2'')]]
        [(''id'', Str ''A001''), (''badges'', Arr (map Str [''B1'', ''B9'', ''B2'']))]
     = Inr ([(''id'', Str ''A001''),
             (''badges'', Arr [Obj [(''id'', Str ''B1'')], Obj [(''id'', Str ''B2'')]])],
            [Badge_id_not_found (Str ''B9'')])"
  using badges_resolved [of "[(''id'', Str ''A001''), (''badges'', Arr (map Str [''B1'', ''B9'', ''B2'']))]"
      "[''B1'', ''B9'', ''B2'']"
      "[Str ''B1'' \<mapsto> Obj [(''id'', Str ''B1'')], Str ''B2'' \<mapsto> Obj [(''id'', Str ''B2'')]]"]
  by (simp add: replace_badges_def py_get_def)


section \<open>Properties of the regular expressions\<close>

lemma isspace_LF [simp]: "isspace LF"
  by (simp add: isspace_def LF_def)

lemma match_items_lit:
  "match_items (lit ic label @ items) s =
     (if label_at ic label s
      then map_option (\<lambda>ps. map (\<lambda>c. [c]) (take (length label) s) @ ps)
             (match_items items (drop (length label) s))
      else None)"
proof (induction label arbitrary: s)
  case Nil
  then show ?case by (cases "match_items items s") (simp_all add: lit_def label_at_def)
next
  case (Cons l label)
  show ?case
  proof (cases s)
    case Nil
    then show ?thesis by (simp add: lit_def label_at_def)
  next
    case (Cons c cs)
    have "lit ic (l # label) = One (\<lambda>c. if ic then lower_char c = lower_char l else c = l) # lit ic label"
      by (simp add: lit_def)
    then show ?thesis
      using Cons.IH [of cs] Cons
      by (auto simp: label_at_def option.map_comp comp_def)
  qed
qed

lemma greedy_last:
  "greedy n p (\<lambda>s. Some []) piece s =
     (if n \<le> length (takeWhile p s) then Some (piece @ takeWhile p s, []) else None)"
  by (induction s arbitrary: n piece) auto

lemma match_items_dot:
  "match_items [Greedy (Suc 0) dot] s =
     (if s \<noteq> [] \<and> hd s \<noteq> LF then Some [takeWhile (\<lambda>c. c \<noteq> LF) s] else None)"
proof -
  have "match_items [] = (\<lambda>s. Some [])" by (rule ext) simp
  then show ?thesis
    by (cases s) (auto simp: greedy_last dot_def [abs_def])
qed

lemma strip_spaces: "list_all isspace s \<Longrightarrow> strip s = []"
proof -
  assume "list_all isspace s"
  then have h: "dropWhile isspace s = []" by (simp add: list_all_iff)
  show ?thesis by (simp only: strip_def h rev.simps dropWhile.simps)
qed

lemma greedy_space_dot:
  assumes K: "\<And>s. K s = (if s \<noteq> [] \<and> hd s \<noteq> LF then Some [takeWhile (\<lambda>c. c \<noteq> LF) s] else None)"
  shows "(list_ex (\<lambda>x. x \<noteq> LF) a \<longrightarrow>
            (\<exists>w v. greedy 0 isspace K piece a = Some (w, [v]) \<and> strip v = line_value a))
       \<and> (\<not> list_ex (\<lambda>x. x \<noteq> LF) a \<longrightarrow> greedy 0 isspace K piece a = None)"
proof (induction a arbitrary: piece)
  case Nil
  have "K [] = None" using K [of "[]"] by simp
  then show ?case by simp
next
  case (Cons c cs)
  have Kc: "K (c # cs) = (if c \<noteq> LF then Some [c # takeWhile (\<lambda>c. c \<noteq> LF) cs] else None)"
    using K [of "c # cs"] by simp
  show ?case
  proof (cases "isspace c")
    case False
    then have "c \<noteq> LF" by auto
    with False show ?thesis
      by (simp add: Kc line_value_def)
  next
    case True
    show ?thesis
    proof (cases "list_ex (\<lambda>x. x \<noteq> LF) cs")
      case ex: True
      with Cons [of "piece @ [c]"] True show ?thesis
        by (auto simp: line_value_def)
    next
      case nex: False
      then have all: "\<forall>x \<in> set cs. x = LF" by (auto simp: list_ex_iff)
      then have tw: "takeWhile (\<lambda>c. c \<noteq> LF) cs = []" by (cases cs) auto
      have d: "dropWhile isspace (c # cs) = []" using True all by auto
      have lv: "line_value (c # cs) = []"
        unfolding line_value_def d by (simp add: strip_def)
      from nex Cons [of "piece @ [c]"]
      have "greedy 0 isspace K (piece @ [c]) cs = None"
        by auto
      with True nex tw Kc lv show ?thesis
        by (auto simp: strip_spaces)
    qed
  qed
qed

lemma match_at_label_line:
  "map_option strip (match_at (label_line ic label) s) =
     (if label_at ic label s \<and> list_ex (\<lambda>x. x \<noteq> LF) (drop (length label) s)
      then Some (line_value (drop (length label) s)) else None)"
proof -
  have len: "length (lit ic label) = length label" by (simp add: lit_def)
  have items: "before (label_line ic label) @ inside (label_line ic label) @ after (label_line ic label)
      = lit ic label @ [Greedy 0 isspace, Greedy (Suc 0) dot]"
    by (simp add: label_line_def)
  show ?thesis
  proof (cases "label_at ic label s")
    case False
    then show ?thesis by (simp add: match_at_def items match_items_lit)
  next
    case True
    then have l: "length label \<le> length s" by (simp add: label_at_def)
    let ?a = "drop (length label) s"
    let ?K = "match_items [Greedy (Suc 0) dot]"
    have step: "match_items [Greedy 0 isspace, Greedy (Suc 0) dot] ?a =
        map_option (\<lambda>(piece, pieces). piece # pieces) (greedy 0 isspace ?K [] ?a)"
      by simp
    note g = greedy_space_dot [of ?K ?a "[]", OF match_items_dot]
    show ?thesis
    proof (cases "list_ex (\<lambda>x. x \<noteq> LF) ?a")
      case nex: False
      with g have "greedy 0 isspace ?K [] ?a = None" by blast
      then have "match_items (lit ic label @ [Greedy 0 isspace, Greedy (Suc 0) dot]) s = None"
        using True by (simp only: match_items_lit step) simp
      with nex show ?thesis
        by (simp add: match_at_def items del: match_items.simps)
    next
      case ex: True
      with g obtain w v where gv: "greedy 0 isspace ?K [] ?a = Some (w, [v])"
        and v: "strip v = line_value ?a" by blast
      have m: "match_items (lit ic label @ [Greedy 0 isspace, Greedy (Suc 0) dot]) s
          = Some (map (\<lambda>c. [c]) (take (length label) s) @ [w, v])"
        using True by (simp only: match_items_lit step gv) simp
      show ?thesis
        using True v l ex
        by (simp add: match_at_def items m del: match_items.simps)
          (simp add: label_line_def len min_def)
    qed
  qed
qed

lemma re_search_label_line:
  "map_option strip (re_search (label_line ic label) s) =
     map_option line_value (found_label ic label s)"
proof (induction s)
  case Nil
  show ?case
    using match_at_label_line [of ic label "[]"] by (auto simp: label_at_def)
next
  case (Cons c cs)
  show ?case
    using match_at_label_line [of ic label "c # cs"] Cons
    by (auto split: option.splits if_splits)
qed


lemma case_label_line:
  "(case re_search (label_line ic label) s of Some g \<Rightarrow> f (strip g) | None \<Rightarrow> d) =
   (case found_label ic label s of Some rest \<Rightarrow> f (line_value rest) | None \<Rightarrow> d)"
  using re_search_label_line [of ic label s]
  by (cases "re_search (label_line ic label) s"; cases "found_label ic label s") auto

lemma py_get_setitem: "py_get (setitem k v d) k' = (if k' = k then v else py_get d k')"
  by (simp add: py_get_def map_of_setitem)

lemma map_of_set_single_line:
  "map_of (set_single_line key label t job) k =
     (if k = key
      then (case found_label False label t of
              Some rest \<Rightarrow> Some (Str (line_value rest))
            | None \<Rightarrow> map_of job k)
      else map_of job k)"
proof -
  have "set_single_line key label t job =
      (case found_label False label t of
         Some rest \<Rightarrow> setitem key (Str (line_value rest)) job
       | None \<Rightarrow> job)"
    unfolding set_single_line_def by (rule case_label_line)
  then show ?thesis by (simp add: map_of_setitem split: option.splits)
qed

lemma map_of_set_company:
  "k \<noteq> ''company'' \<Longrightarrow> map_of (set_company t job) k = map_of job k"
  by (simp add: set_company_def map_of_setitem split: option.splits)

lemma map_of_set_location:
  "k \<noteq> ''location'' \<Longrightarrow> map_of (set_location t job) k = map_of job k"
  by (simp add: set_location_def map_of_setitem split: option.splits)

lemma map_of_set_block:
  "k \<noteq> key \<Longrightarrow> map_of (set_block key start stop t job) k = map_of job k"
  by (simp add: set_block_def map_of_setitem split: option.splits)

lemma map_of_set_apply:
  "k \<noteq> ''apply'' \<Longrightarrow> map_of (set_apply t job) k = map_of job k"
  by (simp add: set_apply_def Let_def map_of_setitem)

lemma parse_job_post_single_line:
  assumes "(key, label) \<in> set recruitment_labels"
    and "get_default post ''message'' (Str []) = Str message"
  shows "\<exists>job. parse_job_post post = Inr job
     \<and> map_of job key =
         map_option (\<lambda>rest. Str (line_value rest)) (found_label False label (remove_emojis message))"
proof -
  from assms(1) have "(key = ''title'' \<and> label = ''Position:'')
      \<or> (key = ''description'' \<and> label = ''Description:'')
      \<or> (key = ''level'' \<and> label = ''Level:'')
      \<or> (key = ''salary'' \<and> label = ''Salary:'')
      \<or> (key = ''work_time'' \<and> label = ''Work Time:'')
      \<or> (key = ''apply_deadline'' \<and> label = ''Deadline:'')"
    by (simp add: recruitment_labels_def)
  with assms(2) show ?thesis
    apply -
    apply (elim disjE conjE)
    apply (simp_all add: parse_job_post_def Let_def map_of_set_single_line
      map_of_set_company map_of_set_location map_of_set_block map_of_set_apply
      split: option.splits)
    done
qed

lemma field_value_label_line:
  assumes "key \<noteq> ''categories''"
  shows "field_value key (label_line True label) s =
     (case found_label True label s of
        None \<Rightarrow> Null
      | Some rest \<Rightarrow> if lower (line_value rest) = ''null'' then Null else Str (line_value rest))"
proof -
  have "field_value key (label_line True label) s =
      (case re_search (label_line True label) s of
         Some g \<Rightarrow> (\<lambda>v. if lower v = ''null'' then Null else Str v) (strip g)
       | None \<Rightarrow> Null)"
    using assms by (simp add: field_value_def Let_def split: option.splits)
  also have "\<dots> = (case found_label True label s of
         Some rest \<Rightarrow> (\<lambda>v. if lower v = ''null'' then Null else Str v) (line_value rest)
       | None \<Rightarrow> Null)"
    by (rule case_label_line)
  finally show ?thesis by (simp split: option.splits)
qed

lemma py_get_fold_patterns:
  "py_get (fold (\<lambda>(key, pattern) data. setitem key (field_value key pattern s) data) patterns []) k =
     (case map_of patterns k of None \<Rightarrow> Null | Some pattern \<Rightarrow> field_value k pattern s)"
  by (simp add: patterns_def py_get_setitem py_get_def)

lemma map_of_patterns:
  "map_of patterns k =
     (if k = ''title'' then Some (label_line True ''Title:'')
      else if k = ''date'' then Some (label_line True ''Date:'')
      else if k = ''location'' then Some (label_line True ''Location:'')
      else if k = ''categories'' then Some (label_line True ''Categories:'')
      else if k = ''members'' then Some (label_line True ''Members:'')
      else if k = ''logo'' then Some (label_line True ''Logo:'')
      else if k = ''background'' then Some (label_line True ''Background:'')
      else if k = ''url'' then Some (label_line True ''URL:'')
      else if k = ''description'' then Some (label_line True ''Description:'')
      else None)"
  by (simp add: patterns_def)

lemma post_to_json_single_line:
  assumes "(key, label) \<in> set event_labels"
  shows "py_get (post_to_json s) key = event_value key (found_label True label s)"
proof -
  from assms have "(key = ''title'' \<and> label = ''Title:'')
      \<or> (key = ''date'' \<and> label = ''Date:'')
      \<or> (key = ''location'' \<and> label = ''Location:'')
      \<or> (key = ''members'' \<and> label = ''Members:'')
      \<or> (key = ''logo'' \<and> label = ''Logo:'')
      \<or> (key = ''background'' \<and> label = ''Background:'')
      \<or> (key = ''url'' \<and> label = ''URL:'')
      \<or> (key = ''description'' \<and> label = ''Description:'')"
    by (simp add: event_labels_def)
  then show ?thesis
    apply (elim disjE conjE)
    apply (simp_all add: post_to_json_def Let_def py_get_setitem py_get_fold_patterns
      map_of_patterns field_value_label_line event_value_def event_default_def
      split: option.splits)
    done
qed

subsection \<open>Single-line fields\<close>

text \<open>
  C5 (single-line label extraction rule), as stated: the first line that begins with the
  label, letter case ignored, gives the value. The recruitment parser compares the label
  exactly, so \<open>position: Dev\<close> gives no title; and a label is found anywhere in a line,
  so the event parser takes the title \<open>x\<close> from \<open>Subtitle: x\<close>.
\<close>

theorem single_line_rule_differs:
  "spec_single_line ''Position:'' ''position: Dev'' = Some ''Dev''
   \<and> map_sum id (\<lambda>job. map_of job ''title'')
        (parse_job_post [(''message'', Str ''position: Dev'')]) = Inr None
   \<and> spec_single_line ''Title:'' ''Subtitle: x'' = None
   \<and> py_get (post_to_json ''Subtitle: x'') ''title'' = Str ''x''"
  by code_simp

text \<open>
  C5, amended. For every single-line field of the two parsers and every text, the parser
  takes the first place of the text, anywhere in a line, where the label stands (letter
  case ignored by the event parser, exact for the recruitment parser, which first removes
  the characters above 127) and is followed by some character other than a line feed; it
  skips the white space after the label, line breaks included, and captures the rest of
  that line, trimmed. The recruitment parser stores the captured text under the field's
  key and leaves the key out when there is no such place. The event parser stores it
  too, and stores the field's default (null; the gradient for \<open>background\<close>) when there
  is no such place, when the captured text reads \<open>null\<close>, and for \<open>members\<close>, \<open>logo\<close> and
  \<open>background\<close> when it is empty.
\<close>

theorem single_line_fields:
  "((key, label) \<in> set recruitment_labels \<and> get_default post ''message'' (Str []) = Str message
      \<longrightarrow> (\<exists>job. parse_job_post post = Inr job
            \<and> map_of job key =
                map_option (\<lambda>rest. Str (line_value rest))
                  (found_label False label (remove_emojis message))))
   \<and> ((key', label') \<in> set event_labels
      \<longrightarrow> py_get (post_to_json s) key' = event_value key' (found_label True label' s))"
  using parse_job_post_single_line [of key label post message]
    post_to_json_single_line [of key' label' s]
  by blast

theorem single_line_fields_witness:
  "(''title'', ''Position:'') \<in> set recruitment_labels
   \<and> get_default [(''message'', Str (''Company: ACME'' @ [LF] @ ''Position:  Dev ''))] ''message'' (Str [])
       = Str (''Company: ACME'' @ [LF] @ ''Position:  Dev '')
   \<and> (\<exists>job. parse_job_post [(''message'', Str (''Company: ACME'' @ [LF] @ ''Position:  Dev ''))] = Inr job
          \<and> map_of job ''title'' = Some (Str ''Dev''))
   \<and> (''title'', ''Title:'') \<in> set event_labels
   \<and> py_get (post_to_json (''x'' @ [LF] @ ''TITLE: Meetup'')) ''title'' = Str ''Meetup''"
proof -
  let ?M = "''Company: ACME'' @ [LF] @ ''Position:  Dev ''"
  let ?S = "''x'' @ [LF] @ ''TITLE: Meetup''"
  have a1: "(''title'', ''Position:'') \<in> set recruitment_labels"
    by (simp add: recruitment_labels_def)
  have a2: "(''title'', ''Title:'') \<in> set event_labels"
    by (simp add: event_labels_def)
  have b: "get_default [(''message'', Str ?M)] ''message'' (Str []) = Str ?M"
    by (simp add: get_default_def)
  have c: "map_option (\<lambda>rest. Str (line_value rest))
             (found_label False ''Position:'' (remove_emojis ?M)) = Some (Str ''Dev'')"
    by code_simp
  have d: "event_value ''title'' (found_label True ''Title:'' ?S) = Str ''Meetup''"
    by code_simp
  note t = single_line_fields [of "''title''" "''Position:''" "[(''message'', Str ?M)]" ?M
      "''title''" "''Title:''" ?S]
  from t a1 b have r: "\<exists>job. parse_job_post [(''message'', Str ?M)] = Inr job
      \<and> map_of job ''title'' =
          map_option (\<lambda>rest. Str (line_value rest))
            (found_label False ''Position:'' (remove_emojis ?M))"
    by blast
  from t a2 have e: "py_get (post_to_json ?S) ''title''
      = event_value ''title'' (found_label True ''Title:'' ?S)"
    by blast
  from a1 a2 b r [unfolded c] e [unfolded d] show ?thesis by blast
qed


subsection \<open>The worked example\<close>

text \<open>
  C4 (worked example of the recruitment parser), as stated: the location of the example
  is type \<open>Remote\<close>, address \<open>N/A\<close>, city \<open>HCMC\<close>. The three sub-labels stand on one line
  of the location block, and each \<open>(.+)\<close> runs to the end of that line.
\<close>

theorem example_location_differs:
  "map_sum id (\<lambda>job. py_get job ''location'')
     (parse_job_post [(''id'', Str ''1''), (''message'', Str example_text)])
   \<noteq> Inr (Obj [(''type'', Str ''Remote''), (''address'', Str ''N/A''), (''city'', Str ''HCMC'')])"
  by code_simp

text \<open>
  C4, amended. The parser turns the example text into the record with title
  \<open>Backend Engineer\<close>, location of type \<open>Remote Address: N/A City: HCMC\<close>, address
  \<open>N/A City: HCMC\<close> and city \<open>HCMC\<close>, requirements \<open>Go\<close> and \<open>SQL\<close>, benefits \<open>Insurance\<close>
  and deadline \<open>2025-12-01\<close> (and salary \<open>1200\<close>, from the first \<open>Salary:\<close> of the text).
\<close>

theorem example_parsed:
  "parse_job_post [(''id'', Str ''1''), (''message'', Str example_text)] =
     Inr [(''id'', Str ''1''), (''created_time'', Null), (''full_picture'', Null),
          (''title'', Str ''Backend Engineer''),
          (''location'',
           Obj [(''type'', Str ''Remote Address: N/A City: HCMC''),
                (''address'', Str ''N/A City: HCMC''),
                (''city'', Str ''HCMC'')]),
          (''salary'', Str ''1200''),
          (''requirements'', Arr [Str ''Go'', Str ''SQL'']),
          (''benefits'', Arr [Str ''Insurance'']),
          (''apply_deadline'', Str ''2025-12-01'')]"
  by code_simp


subsection \<open>The keys of a record\<close>

lemma keys_setitem:
  "map fst (setitem k v d) = (if k \<in> set (map fst d) then map fst d else map fst d @ [k])"
  by (induction d) force+

lemma post_to_json_keys: "map fst (post_to_json s) = map fst patterns"
  by (simp add: post_to_json_def Let_def patterns_def keys_setitem)

lemma parse_job_post_fixed:
  assumes "get_default post ''message'' (Str []) = Str message"
  shows "\<exists>job. parse_job_post post = Inr job
     \<and> map_of job ''id'' = Some (py_get post ''id'')
     \<and> map_of job ''created_time'' = Some (py_get post ''created_time'')
     \<and> map_of job ''full_picture'' = Some (py_get post ''full_picture'')"
  using assms
  by (simp add: parse_job_post_def Let_def map_of_set_single_line
      map_of_set_company map_of_set_location map_of_set_block map_of_set_apply)

lemma split_from_first:
  "\<exists>rest. split_from sep piece s = (piece @ takeWhile (\<lambda>c. \<not> sep c) s) # rest"
proof (induction s arbitrary: piece)
  case Nil
  then show ?case by simp
next
  case (Cons c cs)
  from Cons [of "piece @ [c]"] show ?case by auto
qed

lemma first_line_eq: "first_line message = Inr (strip (takeWhile (\<lambda>c. c \<noteq> LF) message))"
proof -
  from split_from_first [of "\<lambda>c. c = LF" "[]" message]
  obtain rest where "split (\<lambda>c. c = LF) message = takeWhile (\<lambda>c. c \<noteq> LF) message # rest"
    by (auto simp: split_def)
  then show ?thesis by (simp add: first_line_def)
qed

lemma re_search_label_line_None:
  "re_search (label_line ic label) s = None \<longleftrightarrow> found_label ic label s = None"
  using re_search_label_line [of ic label s]
  by (cases "re_search (label_line ic label) s"; cases "found_label ic label s") auto

lemma post_title_fallback:
  "found_label True ''Title:'' message = None \<Longrightarrow>
   post_title message = Inr (strip (takeWhile (\<lambda>c. c \<noteq> LF) message))"
proof -
  assume "found_label True ''Title:'' message = None"
  then have "re_search title_pattern message = None"
    by (simp add: title_pattern_def re_search_label_line_None)
  then show ?thesis by (simp add: post_title_def first_line_eq)
qed

lemma map_of_attach_author:
  "k \<noteq> ''author'' \<Longrightarrow> map_of (attach_author authors_dict message post) k = map_of post k"
  by (simp add: attach_author_def map_of_setitem split: option.splits)

lemma map_of_attach_category:
  "k \<noteq> ''category'' \<Longrightarrow> map_of (attach_category message post) k = map_of post k"
  by (simp add: attach_category_def map_of_setitem split: option.splits)

lemma py_get_copy_if_present:
  "k \<noteq> key \<Longrightarrow> py_get (copy_if_present key post clean_post) k = py_get clean_post k"
  by (simp add: copy_if_present_def py_get_setitem split: option.splits)


text \<open>
  C6 (declared fields always present), as stated: every declared field is a key of every
  record. The recruitment parser sets a field only when its pattern matches: a post
  without a \<open>Position:\<close> line gives a record without the key \<open>title\<close>.
\<close>

theorem recruitment_title_missing:
  "map_sum id (\<lambda>job. map_of job ''title'')
     (parse_job_post [(''id'', Str ''1''), (''message'', Str ''#recruitment'')]) = Inr None"
  by code_simp

text \<open>
  C6, amended. For every text the record of the event parser has exactly the nine
  declared keys, in the order of the grammar (a field whose label is absent holds its
  default, by the single-line rule above). The record of the recruitment parser always
  has the keys \<open>id\<close>, \<open>created_time\<close> and \<open>full_picture\<close>, with the values of the post; each
  of its single-line fields is a key of the record when its label is found and is
  missing from the record when it is not.
\<close>

theorem declared_fields:
  "map fst (post_to_json s) = map fst patterns
   \<and> (get_default post ''message'' (Str []) = Str message
      \<longrightarrow> (\<exists>job. parse_job_post post = Inr job
            \<and> map_of job ''id'' = Some (py_get post ''id'')
            \<and> map_of job ''created_time'' = Some (py_get post ''created_time'')
            \<and> map_of job ''full_picture'' = Some (py_get post ''full_picture'')
            \<and> (\<forall>(key, label) \<in> set recruitment_labels.
                 (map_of job key = None)
                 = (found_label False label (remove_emojis message) = None))))"
proof (intro conjI impI)
  show "map fst (post_to_json s) = map fst patterns" by (rule post_to_json_keys)
next
  assume m: "get_default post ''message'' (Str []) = Str message"
  from parse_job_post_fixed [OF m] obtain job where j: "parse_job_post post = Inr job"
    and f: "map_of job ''id'' = Some (py_get post ''id'')"
      "map_of job ''created_time'' = Some (py_get post ''created_time'')"
      "map_of job ''full_picture'' = Some (py_get post ''full_picture'')"
    by blast
  have "(map_of job key = None) = (found_label False label (remove_emojis message) = None)"
    if "(key, label) \<in> set recruitment_labels" for key label
    using parse_job_post_single_line [OF that m] j by auto
  with j f show "\<exists>job. parse_job_post post = Inr job
            \<and> map_of job ''id'' = Some (py_get post ''id'')
            \<and> map_of job ''created_time'' = Some (py_get post ''created_time'')
            \<and> map_of job ''full_picture'' = Some (py_get post ''full_picture'')
            \<and> (\<forall>(key, label) \<in> set recruitment_labels.
                 (map_of job key = None)
                 = (found_label False label (remove_emojis message) = None))"
    by blast
qed

theorem declared_fields_witness:
  "map fst (post_to_json ''hello'') =
     [''title'', ''date'', ''location'', ''categories'', ''members'', ''logo'', ''background'',
      ''url'', ''description'']
   \<and> get_default [(''id'', Str ''1''), (''message'', Str ''Position: Dev'')] ''message'' (Str [])
       = Str ''Position: Dev''
   \<and> (\<exists>job. parse_job_post [(''id'', Str ''1''), (''message'', Str ''Position: Dev'')] = Inr job
          \<and> map_of job ''id'' = Some (Str ''1'')
          \<and> map_of job ''title'' \<noteq> None \<and> map_of job ''level'' = None)"
proof -
  let ?P = "[(''id'', Str ''1''), (''message'', Str ''Position: Dev'')]"
  have b: "get_default ?P ''message'' (Str []) = Str ''Position: Dev''"
    by (simp add: get_default_def)
  have c1: "found_label False ''Position:'' (remove_emojis ''Position: Dev'') \<noteq> None"
    by code_simp
  have c2: "found_label False ''Level:'' (remove_emojis ''Position: Dev'') = None"
    by code_simp
  have d1: "(''title'', ''Position:'') \<in> set recruitment_labels"
    by (simp add: recruitment_labels_def)
  have d2: "(''level'', ''Level:'') \<in> set recruitment_labels"
    by (simp add: recruitment_labels_def)
  have p: "map fst patterns =
     [''title'', ''date'', ''location'', ''categories'', ''members'', ''logo'', ''background'',
      ''url'', ''description'']"
    by (simp add: patterns_def)
  have q: "py_get ?P ''id'' = Str ''1''" by (simp add: py_get_def)
  note t = declared_fields [of "''hello''" ?P "''Position: Dev''"]
  from t have k: "map fst (post_to_json ''hello'') = map fst patterns" by blast
  from t b obtain job where j: "parse_job_post ?P = Inr job"
    and i: "map_of job ''id'' = Some (py_get ?P ''id'')"
    and a: "\<forall>(key, label) \<in> set recruitment_labels.
                 (map_of job key = None)
                 = (found_label False label (remove_emojis ''Position: Dev'') = None)"
    by blast
  have e1: "(map_of job ''title'' = None)
      = (found_label False ''Position:'' (remove_emojis ''Position: Dev'') = None)"
    using bspec [OF a d1] by (simp only: prod.case)
  have e2: "(map_of job ''level'' = None)
      = (found_label False ''Level:'' (remove_emojis ''Position: Dev'') = None)"
    using bspec [OF a d2] by (simp only: prod.case)
  from e1 c1 have t1: "map_of job ''title'' \<noteq> None" by blast
  from e2 c2 have t2: "map_of job ''level'' = None" by blast
  from k [unfolded p] b j i [unfolded q] t1 t2 show ?thesis by blast
qed


subsection \<open>The title of a post\<close>

text \<open>
  C7 (title fallback), as stated: without a title label the title is the first non-empty
  line of the message. The code takes \<open>message.split("\n")[0].strip()\<close>, the first line,
  also when it is empty.
\<close>

theorem title_fallback_empty_line:
  "found_label True ''Title:'' ([LF] @ ''Hello #posts'') = None
   \<and> spec_first_nonempty_line ([LF] @ ''Hello #posts'') = Some ''Hello #posts''
   \<and> map_sum id (map_option (\<lambda>clean_post. py_get clean_post ''title''))
        (clean_post_of Map.empty
           [(''id'', Str ''1''), (''message'', Str ([LF] @ ''Hello #posts'')),
            (''created_time'', Str ''2025-01-01''), (''permalink_url'', Str ''u'')])
       = Inr (Some (Str []))"
  by code_simp

text \<open>
  C7, amended. For every post with a non-empty message in which no title label is found
  (no place where \<open>Title:\<close> stands, letter case ignored, followed by a character other
  than a line feed), with \<open>#posts\<close> in the message and the fields \<open>id\<close>, \<open>created_time\<close>
  and \<open>permalink_url\<close>, a record is produced and its title is the first line of the raw
  message, the text before the first line feed, trimmed, be it empty or not.
\<close>

theorem title_fallback_first_line:
  assumes "map_of post ''message'' = Some (Str message)" and "message \<noteq> []"
    and "found_label True ''Title:'' message = None"
    and "contains ''#posts'' (lower message)"
    and "map_of post ''id'' = Some pid" and "map_of post ''created_time'' = Some created"
    and "map_of post ''permalink_url'' = Some permalink"
  shows "\<exists>clean_post. clean_post_of authors_dict post = Inr (Some clean_post)
     \<and> py_get clean_post ''title'' = Str (strip (takeWhile (\<lambda>c. c \<noteq> LF) message))"
  using assms
  by (simp add: clean_post_of_def Let_def get_default_def post_title_fallback subscript_def
      map_of_attach_author map_of_attach_category py_get_copy_if_present)
    (simp add: py_get_def)

theorem title_fallback_first_line_witness:
  "map_of [(''id'', Str ''1''), (''message'', Str ('' Hello #posts '' @ [LF] @ ''more'')),
           (''created_time'', Str ''2025-01-01''), (''permalink_url'', Str ''u'')] ''message''
     = Some (Str ('' Hello #posts '' @ [LF] @ ''more''))
   \<and> found_label True ''Title:'' ('' Hello #posts '' @ [LF] @ ''more'') = None
   \<and> contains ''#posts'' (lower ('' Hello #posts '' @ [LF] @ ''more''))
   \<and> (\<exists>clean_post.
         clean_post_of Map.empty
           [(''id'', Str ''1''), (''message'', Str ('' Hello #posts '' @ [LF] @ ''more'')),
            (''created_time'', Str ''2025-01-01''), (''permalink_url'', Str ''u'')]
           = Inr (Some clean_post)
         \<and> py_get clean_post ''title'' = Str ''Hello #posts'')"
proof -
  let ?M = "'' Hello #posts '' @ [LF] @ ''more''"
  let ?P = "[(''id'', Str ''1''), (''message'', Str ?M),
             (''created_time'', Str ''2025-01-01''), (''permalink_url'', Str ''u'')]"
  have m: "map_of ?P ''message'' = Some (Str ?M)" by simp
  have ne: "?M \<noteq> []" by simp
  have a1: "found_label True ''Title:'' ?M = None" by code_simp
  have a2: "contains ''#posts'' (lower ?M)" by code_simp
  have a3: "strip (takeWhile (\<lambda>c. c \<noteq> LF) ?M) = ''Hello #posts''" by code_simp
  have i: "map_of ?P ''id'' = Some (Str ''1'')" by simp
  have c: "map_of ?P ''created_time'' = Some (Str ''2025-01-01'')" by simp
  have u: "map_of ?P ''permalink_url'' = Some (Str ''u'')" by simp
  note r = title_fallback_first_line [OF m ne a1 a2 i c u, of Map.empty]
  from m a1 a2 r [unfolded a3] show ?thesis by blast
qed


subsection \<open>The author hashtag\<close>

lemma lower_char_hash: "lower_char c = lower_char CHR ''#'' \<longleftrightarrow> c = CHR ''#''"
proof
  assume a: "lower_char c = lower_char CHR ''#''"
  have h: "lower_char CHR ''#'' = CHR ''#''" by (simp add: lower_char_def)
  show "c = CHR ''#''"
  proof (rule ccontr)
    assume n: "c \<noteq> CHR ''#''"
    let ?n = "of_char c :: nat"
    from a h n have r: "65 \<le> ?n \<and> ?n \<le> 222" and e: "char_of (?n + 32) = CHR ''#''"
      by (auto simp: lower_char_def Let_def split: if_splits)
    from e have "of_char (char_of (?n + 32)) = (of_char CHR ''#'' :: nat)" by simp
    then have "(?n + 32) mod 256 = 35" by (simp add: of_char_of)
    with r show False by (simp add: mod_if split: if_splits)
  qed
next
  assume "c = CHR ''#''"
  then show "lower_char c = lower_char CHR ''#''" by simp
qed

lemma match_at_id_pattern:
  "match_at id_pattern s =
     (case s of
        h # l # d1 # d2 # d3 # rest \<Rightarrow>
          if h = CHR ''#'' \<and> (ascii_upper l \<or> ascii_lower l) \<and> isdigit d1 \<and> isdigit d2 \<and> isdigit d3
          then Some [l, d1, d2, d3] else None
      | _ \<Rightarrow> None)"
  by (simp add: match_at_def id_pattern_def lit_def lower_char_hash split: list.splits)

lemma hash_no_letter_digit:
  "\<not> isdigit CHR ''#''" "\<not> ascii_upper CHR ''#''" "\<not> ascii_lower CHR ''#''"
  by (simp_all add: isdigit_def ascii_upper_def ascii_lower_def)

lemma match_at_id_pattern_append:
  assumes "match_at id_pattern pre = None" and "pre \<noteq> []"
  shows "match_at id_pattern (pre @ CHR ''#'' # rest) = None"
  using assms hash_no_letter_digit
  by (auto simp: match_at_id_pattern split: list.splits if_splits)

lemma re_search_skip:
  assumes "re_search id_pattern pre = None"
  shows "re_search id_pattern (pre @ CHR ''#'' # rest) = re_search id_pattern (CHR ''#'' # rest)"
  using assms
proof (induction pre)
  case Nil
  then show ?case by simp
next
  case (Cons c cs)
  from Cons.prems have m: "match_at id_pattern (c # cs) = None" and r: "re_search id_pattern cs = None"
    by (auto split: option.splits)
  from match_at_id_pattern_append [OF m] have "match_at id_pattern ((c # cs) @ CHR ''#'' # rest) = None"
    by simp
  with Cons.IH [OF r] show ?case by simp
qed

lemma upper_char_digit: "isdigit d \<Longrightarrow> upper_char d = d"
  by (auto simp: isdigit_def upper_char_def)


text \<open>
  C10 (author-identifier hashtag). Where the message has no identifier before it, a \<open>#\<close>
  followed by a letter of either case and three digits gives the lookup key: the letter
  and the three digits in upper case, whatever follows the third digit. So \<open>#A1234\<close>
  gives \<open>A123\<close>, and only the first identifier of a message is used.
\<close>

theorem author_id_first_hashtag:
  assumes "author_id pre = None" and "ascii_upper l \<or> ascii_lower l"
    and "isdigit d1" and "isdigit d2" and "isdigit d3"
  shows "author_id (pre @ CHR ''#'' # l # d1 # d2 # d3 # rest) = Some (upper [l, d1, d2, d3])"
proof -
  from assms(1) have "re_search id_pattern pre = None" by (simp add: author_id_def)
  from re_search_skip [OF this, of "l # d1 # d2 # d3 # rest"] assms(2-)
  show ?thesis
    by (simp add: author_id_def match_at_id_pattern)
qed

theorem author_id_first_hashtag_witness:
  "author_id [] = None \<and> ascii_upper CHR ''A''
   \<and> isdigit CHR ''1'' \<and> isdigit CHR ''2'' \<and> isdigit CHR ''3''
   \<and> author_id ''#A1234'' = Some ''A123''
   \<and> author_id ''see #b12'' = None \<and> ascii_lower CHR ''c''
   \<and> isdigit CHR ''7'' \<and> isdigit CHR ''8'' \<and> isdigit CHR ''9''
   \<and> author_id ''see #b12#c789 and #D456'' = Some ''C789''"
proof -
  have a0: "author_id [] = None" by code_simp
  have aA: "ascii_upper CHR ''A''" by code_simp
  have a1: "isdigit CHR ''1''" by code_simp
  have a2: "isdigit CHR ''2''" by code_simp
  have a3: "isdigit CHR ''3''" by code_simp
  have b0: "author_id ''see #b12'' = None" by code_simp
  have bc: "ascii_lower CHR ''c''" by code_simp
  have b7: "isdigit CHR ''7''" by code_simp
  have b8: "isdigit CHR ''8''" by code_simp
  have b9: "isdigit CHR ''9''" by code_simp
  have u1: "upper ''A123'' = ''A123''" by code_simp
  have u2: "upper ''c789'' = ''C789''" by code_simp
  note r1 = author_id_first_hashtag [OF a0 disjI1 [OF aA] a1 a2 a3, of "''4''",
      unfolded append.simps u1]
  note r2 = author_id_first_hashtag [OF b0 disjI2 [OF bc] b7 b8 b9, of "'' and #D456''",
      unfolded append.simps u2]
  from a0 aA a1 a2 a3 r1 b0 bc b7 b8 b9 r2 show ?thesis by blast
qed

end
